theory Spec2Isabelle
  imports Main "HOL-Library.Word"
begin

section \<open>JavaScript strings\<close>

text \<open>
  A JavaScript string is a sequence of UTF-16 code units; \<open>length\<close>, \<open>substring\<close>,
  \<open>startsWith\<close>, \<open>includes\<close> and the regular expressions of the extension all count
  code units. Literals of the source that are plain ASCII are written with \<open>ascii\<close>;
  the literals with CJK text are written out as their code units.
\<close>

type_synonym code_unit = "16 word"
type_synonym js_string = "code_unit list"

definition ascii :: "string \<Rightarrow> js_string" where
  "ascii s = map of_char s"

text \<open>\<open>s.startsWith(p)\<close>\<close>

fun startsWith :: "'a list \<Rightarrow> 'a list \<Rightarrow> bool" where
  "startsWith s [] = True"
| "startsWith [] (p # ps) = False"
| "startsWith (c # cs) (p # ps) = (c = p \<and> startsWith cs ps)"

text \<open>\<open>s.includes(p)\<close>: \<open>p\<close> starts at some position of \<open>s\<close>.\<close>

fun includes_str :: "'a list \<Rightarrow> 'a list \<Rightarrow> bool" where
  "includes_str [] p = startsWith [] p"
| "includes_str (c # cs) p = (startsWith (c # cs) p \<or> includes_str cs p)"

text \<open>\<open>s.substring(0, n)\<close>: the first \<open>n\<close> code units, all of \<open>s\<close> when it is shorter.\<close>

definition substring0 :: "nat \<Rightarrow> 'a list \<Rightarrow> 'a list" where
  "substring0 n s = take n s"

text \<open>The decimal rendering of a non-negative integer in a template literal.\<close>

definition digit :: "nat \<Rightarrow> code_unit" where
  "digit d = of_nat (48 + d)"

function decimal :: "nat \<Rightarrow> js_string" where
  "decimal n = (if n < 10 then [digit n] else decimal (n div 10) @ [digit (n mod 10)])"
  by pat_completeness auto
termination
  by (relation "measure id") auto

declare decimal.simps [simp del]

section \<open>The network, as the scripts see it\<close>

text \<open>
  What one call of \<open>fetch\<close> does: the call itself raises (an exception before any
  promise exists), the promise it returns rejects (the network is unreachable, the
  cross-origin check fails), or the promise resolves with a response. The error carries
  its \<open>message\<close>.
\<close>

datatype 'r fetch_outcome =
    FetchThrows js_string
  | FetchRejects js_string
  | FetchResolves 'r

text \<open>A response has a status; \<open>response.ok\<close> says that it is in the range 200 to 299.\<close>

record response =
  status :: nat

definition ok :: "'x response_scheme \<Rightarrow> bool" where
  "ok r = (200 \<le> status r \<and> status r \<le> 299)"

text \<open>
  The response of the ingestion endpoint: what \<open>text()\<close> gives (\<open>None\<close> when the body
  cannot be read) and what \<open>json()\<close> gives (\<open>None\<close> when decoding fails).
\<close>

record 'j http_response = response +
  body_text :: "js_string option"
  body_json :: "'j option"

section \<open>background.js: the status probe\<close>

datatype api_status = Connected | Unknown | Failed

text \<open>
  \<open>fetch(endpoint, {method: 'OPTIONS', mode: 'cors'}).catch(() => null)\<close>: a rejected
  promise becomes \<open>null\<close>; an exception raised by the call itself is not a promise and
  reaches the \<open>catch\<close> block of the function.
\<close>

definition probe_response :: "'r fetch_outcome \<Rightarrow> js_string + 'r option" where
  "probe_response probe =
     (case probe of
        FetchThrows e \<Rightarrow> Inl e
      | FetchRejects e \<Rightarrow> Inr None
      | FetchResolves r \<Rightarrow> Inr (Some r))"

definition checkApiStatus :: "'j http_response fetch_outcome \<Rightarrow> api_status" where
  "checkApiStatus probe =
     (case probe_response probe of
        Inl error \<Rightarrow> Failed
      | Inr None \<Rightarrow> Unknown
      | Inr (Some response) \<Rightarrow>
          if ok response \<or> status response = 405 then Connected else Unknown)"

section \<open>background.js: the relay\<close>

text \<open>The string literals of \<open>sendToApi\<close>, as code units.\<close>

definition api_error_prefix :: js_string where
  \<comment> \<open>\<open>'API \<close> U+8FD4 U+56DE U+9519 U+8BEF \<open> ('\<close>\<close>
  "api_error_prefix = ascii ''API '' @ [0x8FD4, 0x56DE, 0x9519, 0x8BEF] @ ascii '' (''"

definition unreadable_body :: js_string where
  \<comment> \<open>the text that stands for a body that cannot be read: eight CJK code units\<close>
  "unreadable_body = [0x65E0, 0x6CD5, 0x8BFB, 0x53D6, 0x9519, 0x8BEF, 0x4FE1, 0x606F]"

definition network_error_message :: js_string where
  \<comment> \<open>the message naming three causes, on four lines, numbered \<open>1.\<close> to \<open>3.\<close>\<close>
  "network_error_message =
     [0x65E0, 0x6CD5, 0x8FDE, 0x63A5, 0x5230] @ ascii '' API'' @
     [0xFF0C, 0x8BF7, 0x68C0, 0x67E5, 0xFF1A, 0xA] @ ascii ''1. '' @
     [0x540E, 0x7AEF, 0x670D, 0x52A1, 0x662F, 0x5426, 0x8FD0, 0x884C, 0xA] @
     ascii ''2. API Endpoint '' @ [0x662F, 0x5426, 0x6B63, 0x786E, 0xA] @ ascii ''3. '' @
     [0x7F51, 0x7EDC, 0x8FDE, 0x63A5, 0x662F, 0x5426, 0x6B63, 0x5E38]"

text \<open>\<open>await response.text().catch(() => placeholder)\<close>\<close>

definition errorData :: "('j, 'x) http_response_scheme \<Rightarrow> js_string" where
  "errorData response = (case body_text response of Some t \<Rightarrow> t | None \<Rightarrow> unreadable_body)"

text \<open>The message of the error raised for a response that is not \<open>ok\<close>.\<close>

definition api_error_message :: "nat \<Rightarrow> js_string \<Rightarrow> js_string" where
  "api_error_message st body =
     api_error_prefix @ decimal st @ ascii ''): '' @ substring0 100 body"

text \<open>\<open>await response.json().catch(() => ({}))\<close>\<close>

datatype 'j response_data = EmptyObject | Decoded 'j

text \<open>
  The \<open>try\<close> block of \<open>sendToApi\<close>: \<open>Inl\<close> is the message of the error raised in
  it. An exception of the call (of \<open>JSON.stringify\<close>, of \<open>fetch\<close>) and a rejected
  request both end the block at the \<open>await\<close>.
\<close>

definition sendToApi_try :: "'j http_response fetch_outcome \<Rightarrow> js_string + 'j response_data" where
  "sendToApi_try request =
     (case request of
        FetchThrows e \<Rightarrow> Inl e
      | FetchRejects e \<Rightarrow> Inl e
      | FetchResolves response \<Rightarrow>
          if \<not> ok response then
            Inl (api_error_message (status response) (errorData response))
          else
            Inr (case body_json response of Some d \<Rightarrow> Decoded d | None \<Rightarrow> EmptyObject))"

text \<open>The \<open>catch\<close> block: every error of the \<open>try\<close> block passes through it.\<close>

definition sendToApi :: "'j http_response fetch_outcome \<Rightarrow> js_string + 'j response_data" where
  "sendToApi request =
     (case sendToApi_try request of
        Inl message \<Rightarrow>
          if includes_str message (ascii ''Failed to fetch'') \<or>
             includes_str message (ascii ''NetworkError'')
          then Inl network_error_message
          else Inl message
      | Inr responseData \<Rightarrow> Inr responseData)"

section \<open>content.js: the page\<close>

text \<open>
  A value thrown or passed to \<open>reject\<close>: an error object with its \<open>message\<close>, or an
  event object with its type (the \<open>error\<close> event of an image or of a file reader).
\<close>

datatype thrown = Error js_string | Event js_string

text \<open>The parts of \<open>window.location\<close>; \<open>protocol\<close> ends with the colon.\<close>

record location =
  href :: js_string
  protocol :: js_string
  host :: js_string
  hostname :: js_string
  pathname :: js_string
  search :: js_string
  hash :: js_string

text \<open>
  A canvas element: its size, and what \<open>toDataURL("image/png")\<close> does on it, which
  raises on a canvas tainted by cross-origin data.
\<close>

record canvas =
  width :: nat
  height :: nat
  toDataURL :: "thrown + js_string"

text \<open>
  An image element. \<open>load\<close> is what the wait for an image that is not \<open>complete\<close> ends
  with: its \<open>load\<close> event, its \<open>error\<close> event, or the timer of five seconds.
  \<open>src_attribute\<close> is \<open>getAttribute('src')\<close>, \<open>None\<close> for \<open>null\<close>.
\<close>

datatype load_result = Loaded | LoadError | TimedOut

record img =
  complete :: bool
  load :: load_result
  src :: js_string
  src_attribute :: "js_string option"
  naturalWidth :: nat
  naturalHeight :: nat

text \<open>
  The response to the request for an image: \<open>blob()\<close> rejects with an error, or gives
  a blob on which the file reader fires \<open>error\<close> or ends with a data URL.
\<close>

datatype blob_read = ReadError | ReadResult js_string

record image_response = response +
  blob :: "js_string + blob_read"

text \<open>The page: \<open>window.location\<close>, and the document with its elements in document order.\<close>

record page =
  location :: location
  document_title :: js_string
  outerHTML :: js_string
  canvas_elements :: "canvas list"
  img_elements :: "img list"

section \<open>content.js: the snapshot\<close>

text \<open>
  The three regular expressions of \<open>generateHtmlSnapshot\<close> have one shape,
  \<open>/L[^>]*>/i\<close> with a literal \<open>L\<close> of ASCII characters; a regular expression of this
  shape is given by its literal.

  Under the flag \<open>i\<close> two code units match when their canonical forms are equal. For a
  literal of ASCII characters only the ASCII letters matter: no code unit beyond ASCII
  has an ASCII canonical form.
\<close>

definition canonicalize :: "code_unit \<Rightarrow> code_unit" where
  "canonicalize c = (if 0x61 \<le> c \<and> c \<le> 0x7A then c - 0x20 else c)"

text \<open>The literal at the start of the input: the text matched and the rest.\<close>

fun match_literal :: "js_string \<Rightarrow> js_string \<Rightarrow> (js_string \<times> js_string) option" where
  "match_literal [] s = Some ([], s)"
| "match_literal (p # ps) [] = None"
| "match_literal (p # ps) (c # cs) =
     (if canonicalize p = canonicalize c
      then map_option (\<lambda>(m, r). (c # m, r)) (match_literal ps cs)
      else None)"

text \<open>\<open>[^>]*>\<close> at the start of the input: everything up to the first \<open>>\<close>, and it.\<close>

fun match_to_gt :: "js_string \<Rightarrow> (js_string \<times> js_string) option" where
  "match_to_gt [] = None"
| "match_to_gt (c # cs) =
     (if c = 0x3E then Some ([c], cs)
      else map_option (\<lambda>(m, r). (c # m, r)) (match_to_gt cs))"

definition regex_match_at :: "js_string \<Rightarrow> js_string \<Rightarrow> (js_string \<times> js_string) option" where
  "regex_match_at lit s =
     (case match_literal lit s of
        None \<Rightarrow> None
      | Some (m1, r1) \<Rightarrow>
          (case match_to_gt r1 of
             None \<Rightarrow> None
           | Some (m2, r2) \<Rightarrow> Some (m1 @ m2, r2)))"

text \<open>The leftmost match: the text before it, the match, the text after it.\<close>

fun regex_exec :: "js_string \<Rightarrow> js_string \<Rightarrow> (js_string \<times> js_string \<times> js_string) option" where
  "regex_exec lit [] = map_option (\<lambda>(m, r). ([], m, r)) (regex_match_at lit [])"
| "regex_exec lit (c # cs) =
     (case regex_match_at lit (c # cs) of
        Some (m, r) \<Rightarrow> Some ([], m, r)
      | None \<Rightarrow> map_option (\<lambda>(pre, m, r). (c # pre, m, r)) (regex_exec lit cs))"

text \<open>\<open>regex.test(s)\<close>\<close>

definition regex_test :: "js_string \<Rightarrow> js_string \<Rightarrow> bool" where
  "regex_test lit s = (regex_exec lit s \<noteq> None)"

text \<open>\<open>s.replace(regex, f)\<close> with a function \<open>f\<close>: the leftmost match is replaced.\<close>

definition regex_replace :: "js_string \<Rightarrow> (js_string \<Rightarrow> js_string) \<Rightarrow> js_string \<Rightarrow> js_string" where
  "regex_replace lit f s =
     (case regex_exec lit s of
        None \<Rightarrow> s
      | Some (pre, m, post) \<Rightarrow> pre @ f m @ post)"

definition baseTagRegex :: js_string where
  "baseTagRegex = ascii ''<base''"

definition headTagRegex :: js_string where
  "headTagRegex = ascii ''<head''"

definition htmlTagRegex :: js_string where
  "htmlTagRegex = ascii ''<html''"

definition baseHref :: "'x location_scheme \<Rightarrow> js_string" where
  "baseHref loc = protocol loc @ ascii ''//'' @ host loc @ pathname loc"

definition generateHtmlSnapshot :: "'x location_scheme \<Rightarrow> js_string \<Rightarrow> js_string" where
  "generateHtmlSnapshot loc html =
     (let hasBaseTag = regex_test baseTagRegex html in
      if \<not> hasBaseTag then
        if regex_test headTagRegex html then
          regex_replace headTagRegex
            (\<lambda>match. match @ [0xA] @ ascii ''<base href='' @ [0x22] @ baseHref loc @ [0x22] @
               ascii ''>'') html
        else if regex_test htmlTagRegex html then
          regex_replace htmlTagRegex
            (\<lambda>match. match @ [0xA] @ ascii ''<head><base href='' @ [0x22] @ baseHref loc @
               [0x22] @ ascii ''></head>'') html
        else html
      else html)"

section \<open>content.js: the assets\<close>

datatype asset_type = type_canvas_chart | type_image

text \<open>An asset as it is sent: a key that the object does not have is \<open>None\<close>.\<close>

record asset =
  type :: asset_type
  base64 :: "js_string option"
  src_url :: "js_string option"
  width :: nat
  height :: nat

text \<open>What the script does besides computing: its warnings on the console, its requests.\<close>

datatype event =
    WarnCanvasSkipped canvas thrown
  | WarnImageUrlKept js_string thrown
  | WarnImageSkipped img thrown
  | FetchRequest js_string

definition processCanvas :: "canvas \<Rightarrow> asset option \<times> event list" where
  "processCanvas canvas =
     (if canvas.width canvas = 0 \<or> canvas.height canvas = 0 then (None, [])
      else
        (case toDataURL canvas of
           Inr dataURL \<Rightarrow>
             (Some \<lparr>type = type_canvas_chart, base64 = Some dataURL, src_url = None,
                    width = canvas.width canvas, height = canvas.height canvas\<rparr>, [])
         | Inl error \<Rightarrow> (None, [WarnCanvasSkipped canvas error])))"

definition cannot_fetch_prefix :: js_string where
  \<comment> \<open>six CJK code units, then \<open>': '\<close>\<close>
  "cannot_fetch_prefix = [0x65E0, 0x6CD5, 0x83B7, 0x53D6, 0x56FE, 0x7247] @ ascii '': ''"

definition load_timeout_message :: js_string where
  "load_timeout_message = [0x56FE, 0x7247, 0x52A0, 0x8F7D, 0x8D85, 0x65F6]"

text \<open>
  The \<open>try\<close> block of \<open>imageUrlToBase64\<close>: it raises (\<open>Inl\<close>, the message) or returns
  the promise of the file reader, which is not awaited inside the block.
\<close>

definition imageUrlToBase64_try :: "image_response fetch_outcome \<Rightarrow> js_string + blob_read" where
  "imageUrlToBase64_try request =
     (case request of
        FetchThrows e \<Rightarrow> Inl e
      | FetchRejects e \<Rightarrow> Inl e
      | FetchResolves response \<Rightarrow>
          if \<not> ok response then Inl (ascii ''HTTP '' @ decimal (status response))
          else blob response)"

definition imageUrlToBase64 ::
  "(js_string \<Rightarrow> image_response fetch_outcome) \<Rightarrow> js_string \<Rightarrow> (thrown + js_string) \<times> event list" where
  "imageUrlToBase64 fetch url =
     ((case imageUrlToBase64_try (fetch url) of
         Inl message \<Rightarrow> Inl (Error (cannot_fetch_prefix @ message))
       | Inr ReadError \<Rightarrow> Inl (Event (ascii ''error''))
       | Inr (ReadResult dataURL) \<Rightarrow> Inr dataURL),
      [FetchRequest url])"

text \<open>The wait for an image that has not finished loading.\<close>

definition wait_for_load :: "img \<Rightarrow> thrown + unit" where
  "wait_for_load img =
     (if \<not> complete img then
        (case load img of
           Loaded \<Rightarrow> Inr ()
         | LoadError \<Rightarrow> Inl (Event (ascii ''error''))
         | TimedOut \<Rightarrow> Inl (Error load_timeout_message))
      else Inr ())"

text \<open>\<open>img.src || img.getAttribute('src') || ''\<close>: the empty string and \<open>null\<close> are falsy.\<close>

definition image_src :: "img \<Rightarrow> js_string" where
  "image_src img =
     (if src img \<noteq> [] then src img
      else (case src_attribute img of
              Some a \<Rightarrow> if a \<noteq> [] then a else []
            | None \<Rightarrow> []))"

definition processImage ::
  "(js_string \<Rightarrow> image_response fetch_outcome) \<Rightarrow> img \<Rightarrow> asset option \<times> event list" where
  "processImage fetch img =
     (case wait_for_load img of
        Inl error \<Rightarrow> (None, [WarnImageSkipped img error])
      | Inr _ \<Rightarrow>
          (let isBase64 = startsWith (image_src img) (ascii ''data:image/'');
               isLargeEnough = (300 \<le> naturalWidth img \<and> 300 \<le> naturalHeight img)
           in
             if \<not> isBase64 \<and> \<not> isLargeEnough then (None, [])
             else if isBase64 then
               (Some \<lparr>type = type_image, base64 = Some (image_src img), src_url = None,
                      width = naturalWidth img, height = naturalHeight img\<rparr>, [])
             else
               (case imageUrlToBase64 fetch (image_src img) of
                  (Inr dataURL, evs) \<Rightarrow>
                    (Some \<lparr>type = type_image, base64 = Some dataURL, src_url = Some (image_src img),
                           width = naturalWidth img, height = naturalHeight img\<rparr>, evs)
                | (Inl fetchError, evs) \<Rightarrow>
                    (Some \<lparr>type = type_image, base64 = None, src_url = Some (image_src img),
                           width = naturalWidth img, height = naturalHeight img\<rparr>,
                     evs @ [WarnImageUrlKept (image_src img) fetchError]))))"

text \<open>The two loops of \<open>extractAssets\<close>, on the array of assets and the console.\<close>

fun canvas_loop :: "canvas list \<Rightarrow> asset list \<times> event list \<Rightarrow> asset list \<times> event list" where
  "canvas_loop [] acc = acc"
| "canvas_loop (canvas # rest) (assets, console) =
     (case processCanvas canvas of
        (canvasAsset, evs) \<Rightarrow>
          canvas_loop rest
            ((case canvasAsset of Some a \<Rightarrow> assets @ [a] | None \<Rightarrow> assets), console @ evs))"

fun image_loop ::
  "(js_string \<Rightarrow> image_response fetch_outcome) \<Rightarrow> img list \<Rightarrow> asset list \<times> event list \<Rightarrow>
   asset list \<times> event list" where
  "image_loop fetch [] acc = acc"
| "image_loop fetch (img # rest) (assets, console) =
     (case processImage fetch img of
        (imageAsset, evs) \<Rightarrow>
          image_loop fetch rest
            ((case imageAsset of Some a \<Rightarrow> assets @ [a] | None \<Rightarrow> assets), console @ evs))"

definition extractAssets ::
  "(js_string \<Rightarrow> image_response fetch_outcome) \<Rightarrow> canvas list \<Rightarrow> img list \<Rightarrow>
   asset list \<times> event list" where
  "extractAssets fetch canvases images = image_loop fetch images (canvas_loop canvases ([], []))"

record metadata =
  url :: js_string
  title :: js_string
  domain :: js_string

definition extractMetadata :: "page \<Rightarrow> metadata" where
  "extractMetadata p =
     \<lparr>url = href (location p), title = document_title p, domain = hostname (location p)\<rparr>"

record capture = metadata +
  htmlSnapshot :: js_string
  assets :: "asset list"

text \<open>
  \<open>capturePageData\<close>. None of its three steps raises here: \<open>processCanvas\<close> and
  \<open>processImage\<close> end every exception themselves, so its \<open>catch\<close> block has nothing
  to take.
\<close>

definition capturePageData ::
  "(js_string \<Rightarrow> image_response fetch_outcome) \<Rightarrow> page \<Rightarrow> capture \<times> event list" where
  "capturePageData fetch p =
     (let m = extractMetadata p;
          snapshot = generateHtmlSnapshot (location p) (outerHTML p);
          (found, console) = extractAssets fetch (canvas_elements p) (img_elements p)
      in (\<lparr>url = url m, title = title m, domain = domain m,
           htmlSnapshot = snapshot, assets = found\<rparr>, console))"

section \<open>Notions used in the statements and proofs\<close>

text \<open>
  All the matches of a regular expression in a string, from left to right, each search
  starting where the match before it ended (what \<open>s.match\<close> gives under the flag \<open>g\<close>).
  A match has at least one code unit, so a string has no more matches than code units.
\<close>

fun match_all_upto :: "nat \<Rightarrow> js_string \<Rightarrow> js_string \<Rightarrow> js_string list" where
  "match_all_upto 0 lit s = []"
| "match_all_upto (Suc n) lit s =
     (case regex_exec lit s of
        None \<Rightarrow> []
      | Some (pre, m, post) \<Rightarrow> m # match_all_upto n lit post)"

definition regex_match_all :: "js_string \<Rightarrow> js_string \<Rightarrow> js_string list" where
  "regex_match_all lit s = match_all_upto (length s) lit s"



text \<open>The request for an image, or the conversion of what it returns, fails.\<close>

definition image_fetch_fails :: "image_response fetch_outcome \<Rightarrow> bool" where
  "image_fetch_fails request =
     (case request of
        FetchThrows e \<Rightarrow> True
      | FetchRejects e \<Rightarrow> True
      | FetchResolves response \<Rightarrow>
          \<not> ok response \<or> (case blob response of Inl e \<Rightarrow> True | Inr rd \<Rightarrow> rd = ReadError))"

definition is_digit :: "code_unit \<Rightarrow> bool" where
  "is_digit c = (c \<in> {0x30, 0x31, 0x32, 0x33, 0x34, 0x35, 0x36, 0x37, 0x38, 0x39})"

text \<open>Two decimal digits side by side somewhere in a string.\<close>

fun adjacent_digits :: "js_string \<Rightarrow> bool" where
  "adjacent_digits (a # b # r) = ((is_digit a \<and> is_digit b) \<or> adjacent_digits (b # r))"
| "adjacent_digits r = False"

section \<open>Facts about strings\<close>

lemma startsWith_iff: "startsWith s p \<longleftrightarrow> (\<exists>b. s = p @ b)"
  by (induction s p rule: startsWith.induct) auto

lemma includes_str_iff: "includes_str s p \<longleftrightarrow> (\<exists>a b. s = a @ p @ b)"
proof (induction s)
  case Nil
  then show ?case by (simp add: startsWith_iff)
next
  case (Cons c cs)
  show ?case
  proof
    assume "includes_str (c # cs) p"
    then consider "startsWith (c # cs) p" | "includes_str cs p" by auto
    then show "\<exists>a b. c # cs = a @ p @ b"
    proof cases
      case 1
      then obtain b where "c # cs = p @ b" by (auto simp: startsWith_iff)
      then have "c # cs = [] @ p @ b" by simp
      then show ?thesis by blast
    next
      case 2
      then obtain a b where "cs = a @ p @ b" using Cons.IH by auto
      then have "c # cs = (c # a) @ p @ b" by simp
      then show ?thesis by blast
    qed
  next
    assume "\<exists>a b. c # cs = a @ p @ b"
    then obtain a b where ab: "c # cs = a @ p @ b" by auto
    show "includes_str (c # cs) p"
    proof (cases a)
      case Nil
      then have "startsWith (c # cs) p" using ab by (auto simp: startsWith_iff)
      then show ?thesis by simp
    next
      case (Cons x xs)
      then have "cs = xs @ p @ b" using ab by simp
      then show ?thesis using Cons.IH by auto
    qed
  qed
qed

lemma includes_str_self: "includes_str (a @ p @ b) p"
  unfolding includes_str_iff by blast

lemma includes_str_skip:
  "x \<notin> set a \<Longrightarrow> includes_str (a @ b) (x # xs) = includes_str b (x # xs)"
  by (induction a) auto

lemma digit_cases: "d < 10 \<Longrightarrow> is_digit (digit d)"
proof -
  assume "d < 10"
  then have "d = 0 \<or> d = 1 \<or> d = 2 \<or> d = 3 \<or> d = 4 \<or> d = 5 \<or> d = 6 \<or> d = 7 \<or> d = 8 \<or> d = 9"
    by arith
  then show ?thesis by (auto simp: digit_def is_digit_def)
qed

lemma decimal_digits: "list_all is_digit (decimal n)"
proof (induction n rule: decimal.induct)
  case (1 n)
  show ?case
  proof (cases "n < 10")
    case True
    then show ?thesis using digit_cases[of n] by (subst decimal.simps) simp
  next
    case False
    then have "list_all is_digit (decimal (n div 10))" using 1 by simp
    moreover have "is_digit (digit (n mod 10))" using digit_cases[of "n mod 10"] by simp
    ultimately show ?thesis using False by (subst decimal.simps) simp
  qed
qed

lemma decimal_length: "10 \<le> n \<Longrightarrow> 2 \<le> length (decimal n)"
  by (subst decimal.simps, subst decimal.simps) simp

lemma adjacent_digits_append: "adjacent_digits b \<Longrightarrow> adjacent_digits (a @ b)"
proof (induction a)
  case Nil
  then show ?case by simp
next
  case (Cons x xs)
  then have "adjacent_digits (xs @ b)" by simp
  then show ?case by (cases "xs @ b") auto
qed

lemma adjacent_digits_includes:
  assumes "includes_str s p" "2 \<le> length p" "list_all is_digit p"
  shows "adjacent_digits s"
proof -
  obtain a b where s: "s = a @ p @ b" using assms(1) by (auto simp: includes_str_iff)
  obtain x y r where p: "p = x # y # r" using assms(2)
    by (cases p; cases "tl p") auto
  then have "adjacent_digits (p @ b)" using assms(3) by simp
  then show ?thesis unfolding s by (rule adjacent_digits_append)
qed

section \<open>Facts about the relay\<close>

lemma network_error_message_no_number:
  "10 \<le> n \<Longrightarrow> \<not> includes_str network_error_message (decimal n)"
proof
  assume "10 \<le> n" "includes_str network_error_message (decimal n)"
  then have "adjacent_digits network_error_message"
    using adjacent_digits_includes decimal_digits decimal_length by blast
  then show False
    by (simp add: network_error_message_def ascii_def is_digit_def)
qed

lemma api_error_prefix_set:
  "set (api_error_prefix @ decimal n @ ascii ''): '') \<subseteq>
     {0x41, 0x50, 0x49, 0x20, 0x8FD4, 0x56DE, 0x9519, 0x8BEF, 0x28, 0x29, 0x3A} \<union> Collect is_digit"
  using decimal_digits[of n]
  by (auto simp: api_error_prefix_def ascii_def list_all_iff)

lemma api_error_message_includes:
  assumes "x \<in> {0x46, 0x4E}"
  shows "includes_str (api_error_message n d) (x # xs) = includes_str (substring0 100 d) (x # xs)"
proof -
  have "x \<notin> set (api_error_prefix @ decimal n @ ascii ''): '')"
    using api_error_prefix_set[of n] assms by (auto simp: is_digit_def)
  then show ?thesis
    using includes_str_skip[of x "api_error_prefix @ decimal n @ ascii ''): ''"]
    by (simp add: api_error_message_def)
qed

lemma Failed_to_fetch_Cons: "ascii ''Failed to fetch'' = 0x46 # ascii ''ailed to fetch''"
  by (simp add: ascii_def)

lemma NetworkError_Cons: "ascii ''NetworkError'' = 0x4E # ascii ''etworkError''"
  by (simp add: ascii_def)

text \<open>
  Neither \<open>F\<close> nor \<open>N\<close> occurs before the body text in the message of an HTTP failure:
  the test of the \<open>catch\<close> block on such a message is a test on the body text.
\<close>

lemma api_error_message_gate:
  "includes_str (api_error_message n d) (ascii ''Failed to fetch'') =
     includes_str (substring0 100 d) (ascii ''Failed to fetch'')"
  "includes_str (api_error_message n d) (ascii ''NetworkError'') =
     includes_str (substring0 100 d) (ascii ''NetworkError'')"
  unfolding Failed_to_fetch_Cons NetworkError_Cons
  by (simp_all add: api_error_message_includes)

lemma sendToApi_try_not_ok:
  "\<not> ok response \<Longrightarrow>
   sendToApi_try (FetchResolves response) =
     Inl (api_error_message (status response) (errorData response))"
  by (simp add: sendToApi_try_def)

section \<open>Facts about the matcher\<close>














section \<open>Facts about the harvest\<close>

lemma canvas_loop_eq:
  "canvas_loop cs (acc, console) =
     (acc @ List.map_filter (\<lambda>c. fst (processCanvas c)) cs,
      console @ concat (map (\<lambda>c. snd (processCanvas c)) cs))"
  by (induction cs arbitrary: acc console)
     (auto simp: List.map_filter_simps split: prod.splits option.splits)

lemma image_loop_eq:
  "image_loop fetch is (acc, console) =
     (acc @ List.map_filter (\<lambda>i. fst (processImage fetch i)) is,
      console @ concat (map (\<lambda>i. snd (processImage fetch i)) is))"
  by (induction "is" arbitrary: acc console)
     (auto simp: List.map_filter_simps split: prod.splits option.splits)

lemma extractAssets_eq:
  "extractAssets fetch cs is =
     (List.map_filter (\<lambda>c. fst (processCanvas c)) cs @
      List.map_filter (\<lambda>i. fst (processImage fetch i)) is,
      concat (map (\<lambda>c. snd (processCanvas c)) cs) @
      concat (map (\<lambda>i. snd (processImage fetch i)) is))"
  by (simp add: extractAssets_def canvas_loop_eq[of _ "[]" "[]", simplified] image_loop_eq)

lemma capturePageData_assets:
  "assets (fst (capturePageData fetch p)) = fst (extractAssets fetch (canvas_elements p) (img_elements p))"
  by (simp add: capturePageData_def Let_def split: prod.splits)

lemma map_filter_skip:
  "f x = None \<Longrightarrow> List.map_filter f (xs @ x # ys) = List.map_filter f (xs @ ys)"
  by (simp add: List.map_filter_def)

lemma map_filter_member:
  "x \<in> set xs \<Longrightarrow> f x = Some y \<Longrightarrow> y \<in> set (List.map_filter f xs)"
  by (force simp: List.map_filter_def)

lemma map_filter_keep:
  "f x = Some y \<Longrightarrow>
   List.map_filter f (xs @ x # ys) = List.map_filter f xs @ y # List.map_filter f ys"
  by (simp add: List.map_filter_def)

lemma processCanvas_type:
  "fst (processCanvas c) = Some a \<Longrightarrow> type a = type_canvas_chart"
  by (auto simp: processCanvas_def split: if_splits sum.splits)

lemma processImage_type:
  "fst (processImage fetch i) = Some a \<Longrightarrow> type a = type_image"
  by (auto simp: processImage_def Let_def split: if_splits sum.splits prod.splits)

lemma map_filter_set:
  "y \<in> set (List.map_filter f xs) \<Longrightarrow> \<exists>x \<in> set xs. f x = Some y"
  by (auto simp: List.map_filter_def)

lemma wait_for_load_ok: "complete img \<or> load img = Loaded \<Longrightarrow> wait_for_load img = Inr ()"
  by (auto simp: wait_for_load_def)

lemma image_fetch_fails_Inl:
  "image_fetch_fails (fetch u) \<Longrightarrow> \<exists>e. imageUrlToBase64 fetch u = (Inl e, [FetchRequest u])"
  by (auto simp: image_fetch_fails_def imageUrlToBase64_def imageUrlToBase64_try_def
      split: fetch_outcome.splits sum.splits blob_read.splits)

section \<open>Properties of the status probe\<close>

text \<open>
  C1 (as stated, refuted): the claim has a probe that throws because the network is
  unreachable reported as \<open>failed\<close>. An unreachable network rejects the promise of
  \<open>fetch\<close>, the \<open>.catch(() => null)\<close> of the probe turns the rejection into no
  response, and the probe reports \<open>unknown\<close>.
\<close>

theorem checkApiStatus_unreachable_counterexample:
  "checkApiStatus (FetchRejects (ascii ''Failed to fetch'') :: unit http_response fetch_outcome)
     = Unknown \<and>
   checkApiStatus (FetchRejects (ascii ''Failed to fetch'') :: unit http_response fetch_outcome)
     \<noteq> Failed"
  by (simp add: checkApiStatus_def probe_response_def)

text \<open>
  C1 (amended): for every endpoint the probe reports \<open>connected\<close> when the response has
  a success status or status 405; \<open>unknown\<close> when there is no response, which includes
  a rejected request (network unreachable), or when the response has any other status;
  and \<open>failed\<close> only when the call of \<open>fetch\<close> itself raises.
\<close>

theorem checkApiStatus_cases:
  "checkApiStatus probe =
     (case probe of
        FetchResolves r \<Rightarrow>
          if (200 \<le> status r \<and> status r \<le> 299) \<or> status r = 405 then Connected else Unknown
      | FetchRejects e \<Rightarrow> Unknown
      | FetchThrows e \<Rightarrow> Failed)"
  by (simp add: checkApiStatus_def probe_response_def ok_def split: fetch_outcome.split)

section \<open>Properties of the relay: HTTP failures\<close>

text \<open>
  A response with a non-success status whose body text has neither \<open>Failed to fetch\<close>
  nor \<open>NetworkError\<close> in its first 100 code units: the error raised at the \<open>throw\<close>
  leaves \<open>sendToApi\<close> as it was built, with the status code and that start of the
  body. Status 500 with the body \<open>server error\<close> is such a response.
\<close>

lemma sendToApi_http_error_reported:
  assumes "\<not> ok response"
    and "\<not> includes_str (substring0 100 (errorData response)) (ascii ''Failed to fetch'')"
    and "\<not> includes_str (substring0 100 (errorData response)) (ascii ''NetworkError'')"
  shows "sendToApi (FetchResolves response) =
           Inl (api_error_prefix @ decimal (status response) @ ascii ''): '' @
                take 100 (errorData response)) \<and>
         includes_str (api_error_prefix @ decimal (status response) @ ascii ''): '' @
                take 100 (errorData response)) (decimal (status response)) \<and>
         includes_str (api_error_prefix @ decimal (status response) @ ascii ''): '' @
                take 100 (errorData response)) (take 100 (errorData response))"
proof -
  let ?st = "decimal (status response)" and ?body = "take 100 (errorData response)"
  have "sendToApi (FetchResolves response) =
          Inl (api_error_message (status response) (errorData response))"
    using assms by (simp add: sendToApi_def sendToApi_try_not_ok api_error_message_gate)
  moreover have "includes_str (api_error_prefix @ ?st @ (ascii ''): '' @ ?body)) ?st"
    by (rule includes_str_self)
  moreover have "includes_str ((api_error_prefix @ ?st @ ascii ''): '') @ ?body @ []) ?body"
    by (rule includes_str_self)
  ultimately show ?thesis
    by (simp add: api_error_message_def substring0_def)
qed

lemma sendToApi_http_error_scenario:
  "sendToApi (FetchResolves \<lparr>status = 500, body_text = Some (ascii ''server error''),
       body_json = None :: unit option\<rparr>) =
     Inl (api_error_prefix @ ascii ''500): server error'') \<and>
   includes_str (api_error_prefix @ ascii ''500): server error'') (ascii ''500'') \<and>
   includes_str (api_error_prefix @ ascii ''500): server error'') (ascii ''server error'')"
  using sendToApi_http_error_reported [of "\<lparr>status = 500, body_text = Some (ascii ''server error''),
       body_json = None :: unit option\<rparr>"]
  by (simp add: ok_def errorData_def substring0_def ascii_def decimal.simps digit_def)

text \<open>
  C2: every response with a non-success status is to fail with a message that holds
  the status code and the start of the body text. The code builds that message and
  throws it inside its own \<open>try\<close> block; the \<open>catch\<close> block, written for network
  errors, tests the message for \<open>Failed to fetch\<close> and \<open>NetworkError\<close> and so takes the
  HTTP failure too when the body has one of them. At status 500 with the body
  \<open>Failed to fetch\<close> the endpoint has answered, and the caller gets the message of an
  unreachable endpoint, with neither the status code nor the body in it.
\<close>

theorem sendToApi_http_error_swallowed:
  "sendToApi (FetchResolves \<lparr>status = 500, body_text = Some (ascii ''Failed to fetch''),
       body_json = None :: unit option\<rparr>) = Inl network_error_message \<and>
   \<not> includes_str network_error_message (decimal 500) \<and>
   \<not> includes_str network_error_message (ascii ''Failed to fetch'')"
  by (simp add: sendToApi_def sendToApi_try_def ok_def api_error_message_def api_error_prefix_def
      errorData_def substring0_def ascii_def decimal.simps digit_def network_error_message_def)

section \<open>Properties of the snapshot\<close>




text \<open>
  C4: for every document string in which the base pattern matches (whatever the case
  of its letters), the snapshot is the document itself: the base directives it has
  and their places are those of the document, none added and none changed.
\<close>

theorem generateHtmlSnapshot_keeps_base:
  assumes "regex_test baseTagRegex html"
  shows "generateHtmlSnapshot loc html = html \<and>
         regex_exec baseTagRegex (generateHtmlSnapshot loc html) = regex_exec baseTagRegex html \<and>
         regex_match_all baseTagRegex (generateHtmlSnapshot loc html) =
           regex_match_all baseTagRegex html"
  using assms by (simp add: generateHtmlSnapshot_def)

theorem generateHtmlSnapshot_keeps_base_witness:
  "generateHtmlSnapshot
     \<lparr>href = ascii ''https://example.com/a/b?q=1#top'', protocol = ascii ''https:'',
      host = ascii ''example.com'', hostname = ascii ''example.com'',
      pathname = ascii ''/a/b'', search = ascii ''?q=1'', hash = ascii ''#top''\<rparr>
     (ascii ''<html><head><BASE href=/x/><title>t</title></head></html>'') =
   ascii ''<html><head><BASE href=/x/><title>t</title></head></html>'' \<and>
   regex_exec baseTagRegex
     (generateHtmlSnapshot
        \<lparr>href = ascii ''https://example.com/a/b?q=1#top'', protocol = ascii ''https:'',
         host = ascii ''example.com'', hostname = ascii ''example.com'',
         pathname = ascii ''/a/b'', search = ascii ''?q=1'', hash = ascii ''#top''\<rparr>
        (ascii ''<html><head><BASE href=/x/><title>t</title></head></html>'')) =
   Some (ascii ''<html><head>'', ascii ''<BASE href=/x/>'', ascii ''<title>t</title></head></html>'')"
  using generateHtmlSnapshot_keeps_base
    [of "ascii ''<html><head><BASE href=/x/><title>t</title></head></html>''"
        "\<lparr>href = ascii ''https://example.com/a/b?q=1#top'', protocol = ascii ''https:'',
          host = ascii ''example.com'', hostname = ascii ''example.com'',
          pathname = ascii ''/a/b'', search = ascii ''?q=1'', hash = ascii ''#top''\<rparr>"]
  by (simp add: regex_test_def regex_match_all_def regex_match_at_def baseTagRegex_def
      canonicalize_def ascii_def)

section \<open>Properties of the harvest\<close>

text \<open>
  C5: a canvas of width 0 or height 0 gives no asset; a canvas whose \<open>toDataURL\<close>
  raises gives no asset, of any form, and one warning; and a canvas that gives no asset
  leaves the harvest of the other canvases and of the images, and the capture, as
  they are without it.
\<close>

theorem processCanvas_skips:
  "(canvas.width c = 0 \<or> canvas.height c = 0 \<longrightarrow> processCanvas c = (None, [])) \<and>
   (canvas.width c \<noteq> 0 \<longrightarrow> canvas.height c \<noteq> 0 \<longrightarrow> toDataURL c = Inl error \<longrightarrow>
      processCanvas c = (None, [WarnCanvasSkipped c error])) \<and>
   (fst (processCanvas c) = None \<longrightarrow>
      fst (extractAssets fetch (earlier @ c # later) images) =
        fst (extractAssets fetch (earlier @ later) images) \<and>
      (canvas_elements p = earlier @ c # later \<longrightarrow>
         assets (fst (capturePageData fetch p)) =
           List.map_filter (\<lambda>c. fst (processCanvas c)) (earlier @ later) @
           List.map_filter (\<lambda>i. fst (processImage fetch i)) (img_elements p)))"
proof (intro conjI impI)
  assume "canvas.width c = 0 \<or> canvas.height c = 0"
  then show "processCanvas c = (None, [])"
    by (auto simp: processCanvas_def)
next
  assume "canvas.width c \<noteq> 0" "canvas.height c \<noteq> 0" "toDataURL c = Inl error"
  then show "processCanvas c = (None, [WarnCanvasSkipped c error])"
    by (simp add: processCanvas_def)
next
  assume none: "fst (processCanvas c) = None"
  show "fst (extractAssets fetch (earlier @ c # later) images) =
        fst (extractAssets fetch (earlier @ later) images)"
    using map_filter_skip[of "\<lambda>c. fst (processCanvas c)" c earlier later] none
    by (simp add: extractAssets_eq)
  assume "canvas_elements p = earlier @ c # later"
  then show "assets (fst (capturePageData fetch p)) =
           List.map_filter (\<lambda>c. fst (processCanvas c)) (earlier @ later) @
           List.map_filter (\<lambda>i. fst (processImage fetch i)) (img_elements p)"
    using map_filter_skip[of "\<lambda>c. fst (processCanvas c)" c earlier later] none
    by (simp add: capturePageData_assets extractAssets_eq)
qed

theorem processCanvas_skips_witness:
  "processCanvas \<lparr>canvas.width = 0, canvas.height = 150, toDataURL = Inr (ascii ''data:,'')\<rparr> =
     (None, []) \<and>
   processCanvas \<lparr>canvas.width = 300, canvas.height = 150,
       toDataURL = Inl (Error (ascii ''SecurityError''))\<rparr> =
     (None, [WarnCanvasSkipped
        \<lparr>canvas.width = 300, canvas.height = 150,
         toDataURL = Inl (Error (ascii ''SecurityError''))\<rparr>
        (Error (ascii ''SecurityError''))]) \<and>
   fst (extractAssets (\<lambda>u. FetchRejects (ascii ''Failed to fetch''))
     [\<lparr>canvas.width = 300, canvas.height = 150,
       toDataURL = Inl (Error (ascii ''SecurityError''))\<rparr>,
      \<lparr>canvas.width = 800, canvas.height = 400,
       toDataURL = Inr (ascii ''data:image/png;base64,AAAA'')\<rparr>] []) =
     [\<lparr>type = type_canvas_chart, base64 = Some (ascii ''data:image/png;base64,AAAA''),
       src_url = None, width = 800, height = 400\<rparr>] \<and>
   assets (fst (capturePageData (\<lambda>u. FetchRejects (ascii ''Failed to fetch''))
     \<lparr>location = \<lparr>href = ascii ''https://example.com/'', protocol = ascii ''https:'',
        host = ascii ''example.com'', hostname = ascii ''example.com'',
        pathname = ascii ''/'', search = [], hash = []\<rparr>,
      document_title = ascii ''t'', outerHTML = ascii ''<html></html>'',
      canvas_elements =
        [\<lparr>canvas.width = 300, canvas.height = 150,
          toDataURL = Inl (Error (ascii ''SecurityError''))\<rparr>,
         \<lparr>canvas.width = 800, canvas.height = 400,
          toDataURL = Inr (ascii ''data:image/png;base64,AAAA'')\<rparr>],
      img_elements = []\<rparr>)) =
     [\<lparr>type = type_canvas_chart, base64 = Some (ascii ''data:image/png;base64,AAAA''),
       src_url = None, width = 800, height = 400\<rparr>]"
  using processCanvas_skips
      [where c = "\<lparr>canvas.width = 0, canvas.height = 150, toDataURL = Inr (ascii ''data:,'')\<rparr>"]
    processCanvas_skips
      [where c = "\<lparr>canvas.width = 300, canvas.height = 150,
                    toDataURL = Inl (Error (ascii ''SecurityError''))\<rparr>"
         and error = "Error (ascii ''SecurityError'')"
         and fetch = "\<lambda>u. FetchRejects (ascii ''Failed to fetch'')"
         and earlier = "[]"
         and later = "[\<lparr>canvas.width = 800, canvas.height = 400,
                        toDataURL = Inr (ascii ''data:image/png;base64,AAAA'')\<rparr>]"
         and images = "[]"
         and p = "\<lparr>location = \<lparr>href = ascii ''https://example.com/'', protocol = ascii ''https:'',
              host = ascii ''example.com'', hostname = ascii ''example.com'',
              pathname = ascii ''/'', search = [], hash = []\<rparr>,
            document_title = ascii ''t'', outerHTML = ascii ''<html></html>'',
            canvas_elements =
              [\<lparr>canvas.width = 300, canvas.height = 150,
                toDataURL = Inl (Error (ascii ''SecurityError''))\<rparr>,
               \<lparr>canvas.width = 800, canvas.height = 400,
                toDataURL = Inr (ascii ''data:image/png;base64,AAAA'')\<rparr>],
            img_elements = []\<rparr>"]
  by (simp add: capturePageData_assets extractAssets_def processCanvas_def)

text \<open>
  C6: an image whose source does not start with \<open>data:image/\<close> and whose natural
  width and height are not both at least 300 gives no asset; an image gives an asset
  only if its source starts with \<open>data:image/\<close> or both are at least 300.
\<close>

theorem processImage_filter:
  "(\<not> startsWith (image_src img) (ascii ''data:image/'') \<longrightarrow>
      \<not> (300 \<le> naturalWidth img \<and> 300 \<le> naturalHeight img) \<longrightarrow>
      fst (processImage fetch img) = None) \<and>
   (fst (processImage fetch img) = Some a \<longrightarrow>
      startsWith (image_src img) (ascii ''data:image/'') \<or>
      (300 \<le> naturalWidth img \<and> 300 \<le> naturalHeight img))"
  by (auto simp: processImage_def Let_def split: sum.splits)

theorem processImage_filter_witness:
  "fst (processImage (\<lambda>u. FetchRejects (ascii ''Failed to fetch''))
     \<lparr>complete = True, load = Loaded, src = ascii ''https://example.com/icon.png'',
      src_attribute = Some (ascii ''icon.png''), naturalWidth = 299, naturalHeight = 800\<rparr>) =
   None \<and>
   fst (processImage (\<lambda>u. FetchRejects (ascii ''Failed to fetch''))
     \<lparr>complete = True, load = Loaded, src = ascii ''https://example.com/big.png'',
      src_attribute = Some (ascii ''big.png''), naturalWidth = 300, naturalHeight = 300\<rparr>) =
   Some \<lparr>type = type_image, base64 = None, src_url = Some (ascii ''https://example.com/big.png''),
         width = 300, height = 300\<rparr> \<and>
   \<not> startsWith (ascii ''https://example.com/big.png'') (ascii ''data:image/'')"
  using processImage_filter
      [where img = "\<lparr>complete = True, load = Loaded, src = ascii ''https://example.com/icon.png'',
          src_attribute = Some (ascii ''icon.png''), naturalWidth = 299, naturalHeight = 800\<rparr>"
         and fetch = "\<lambda>u. FetchRejects (ascii ''Failed to fetch'')"]
    processImage_filter
      [where img = "\<lparr>complete = True, load = Loaded, src = ascii ''https://example.com/big.png'',
          src_attribute = Some (ascii ''big.png''), naturalWidth = 300, naturalHeight = 300\<rparr>"
         and fetch = "\<lambda>u. FetchRejects (ascii ''Failed to fetch'')"
         and a = "\<lparr>type = type_image, base64 = None,
          src_url = Some (ascii ''https://example.com/big.png''), width = 300, height = 300\<rparr>"]
  by (simp add: image_src_def ascii_def processImage_def wait_for_load_def imageUrlToBase64_def
      imageUrlToBase64_try_def)

text \<open>
  C7: for an image whose source starts with \<open>data:image/\<close>, the asset, which is given
  whenever the image is loaded, has that source itself as \<open>base64\<close> and the natural
  width and height of the image, and no request is made.
\<close>

theorem processImage_inline:
  assumes "startsWith (image_src img) (ascii ''data:image/'')"
  shows "(complete img \<or> load img = Loaded \<longrightarrow>
            processImage fetch img =
              (Some \<lparr>type = type_image, base64 = Some (image_src img), src_url = None,
                     width = naturalWidth img, height = naturalHeight img\<rparr>, [])) \<and>
         (\<forall>a. fst (processImage fetch img) = Some a \<longrightarrow>
            base64 a = Some (image_src img) \<and>
            width a = naturalWidth img \<and> height a = naturalHeight img) \<and>
         (\<forall>u. FetchRequest u \<notin> set (snd (processImage fetch img)))"
  using assms
  by (auto simp: processImage_def Let_def wait_for_load_def split: sum.splits load_result.splits)

theorem processImage_inline_witness:
  "processImage (\<lambda>u. FetchRejects (ascii ''Failed to fetch''))
     \<lparr>complete = True, load = Loaded, src = ascii ''data:image/png;base64,iVBOR'',
      src_attribute = Some (ascii ''data:image/png;base64,iVBOR''),
      naturalWidth = 16, naturalHeight = 16\<rparr> =
   (Some \<lparr>type = type_image, base64 = Some (ascii ''data:image/png;base64,iVBOR''),
          src_url = None, width = 16, height = 16\<rparr>, [])"
  using processImage_inline
      [where img = "\<lparr>complete = True, load = Loaded, src = ascii ''data:image/png;base64,iVBOR'',
          src_attribute = Some (ascii ''data:image/png;base64,iVBOR''),
          naturalWidth = 16, naturalHeight = 16\<rparr>"
         and fetch = "\<lambda>u. FetchRejects (ascii ''Failed to fetch'')"]
  by (simp add: image_src_def ascii_def)

text \<open>
  C8: for a loaded image that is large enough and not inline, when the request for it
  or the conversion of the response fails, \<open>processImage\<close> gives an asset with
  \<open>src_url\<close> and without \<open>base64\<close>, after one warning; the asset takes its place among
  the assets of \<open>extractAssets\<close> and is in the result of the capture.
\<close>

theorem processImage_fetch_failure:
  assumes "complete img \<or> load img = Loaded"
    and "\<not> startsWith (image_src img) (ascii ''data:image/'')"
    and "300 \<le> naturalWidth img \<and> 300 \<le> naturalHeight img"
    and "image_fetch_fails (fetch (image_src img))"
  shows "\<exists>fetchError.
           processImage fetch img =
             (Some \<lparr>type = type_image, base64 = None, src_url = Some (image_src img),
                    width = naturalWidth img, height = naturalHeight img\<rparr>,
              [FetchRequest (image_src img), WarnImageUrlKept (image_src img) fetchError]) \<and>
           fst (extractAssets fetch canvases (earlier @ img # later)) =
             List.map_filter (\<lambda>c. fst (processCanvas c)) canvases @
             List.map_filter (\<lambda>i. fst (processImage fetch i)) earlier @
             \<lparr>type = type_image, base64 = None, src_url = Some (image_src img),
              width = naturalWidth img, height = naturalHeight img\<rparr> #
             List.map_filter (\<lambda>i. fst (processImage fetch i)) later \<and>
           (img \<in> set (img_elements p) \<longrightarrow>
              \<lparr>type = type_image, base64 = None, src_url = Some (image_src img),
               width = naturalWidth img, height = naturalHeight img\<rparr>
                \<in> set (assets (fst (capturePageData fetch p))))"
proof -
  let ?a = "\<lparr>type = type_image, base64 = None, src_url = Some (image_src img),
              width = naturalWidth img, height = naturalHeight img\<rparr>"
  obtain e where e: "imageUrlToBase64 fetch (image_src img) = (Inl e, [FetchRequest (image_src img)])"
    using image_fetch_fails_Inl[of fetch "image_src img"] assms(4) by blast
  have pi: "processImage fetch img =
      (Some ?a, [FetchRequest (image_src img), WarnImageUrlKept (image_src img) e])"
    using assms(2,3) by (simp add: processImage_def wait_for_load_ok[OF assms(1)] e)
  then have f: "(\<lambda>i. fst (processImage fetch i)) img = Some ?a" by simp
  have ea: "fst (extractAssets fetch canvases (earlier @ img # later)) =
             List.map_filter (\<lambda>c. fst (processCanvas c)) canvases @
             List.map_filter (\<lambda>i. fst (processImage fetch i)) earlier @
             ?a # List.map_filter (\<lambda>i. fst (processImage fetch i)) later"
    using map_filter_keep[of "\<lambda>i. fst (processImage fetch i)" img ?a earlier later] f
    by (simp add: extractAssets_eq)
  have "img \<in> set (img_elements p) \<longrightarrow> ?a \<in> set (assets (fst (capturePageData fetch p)))"
    using map_filter_member[of img "img_elements p" "\<lambda>i. fst (processImage fetch i)" ?a] f
    by (simp add: capturePageData_assets extractAssets_eq)
  with pi ea show ?thesis by blast
qed

theorem processImage_fetch_failure_witness:
  "processImage (\<lambda>u. FetchRejects (ascii ''Failed to fetch''))
     \<lparr>complete = False, load = Loaded, src = ascii ''https://cdn.example.com/chart.png'',
      src_attribute = Some (ascii ''//cdn.example.com/chart.png''),
      naturalWidth = 320, naturalHeight = 300\<rparr> =
   (Some \<lparr>type = type_image, base64 = None,
          src_url = Some (ascii ''https://cdn.example.com/chart.png''),
          width = 320, height = 300\<rparr>,
    [FetchRequest (ascii ''https://cdn.example.com/chart.png''),
     WarnImageUrlKept (ascii ''https://cdn.example.com/chart.png'')
       (Error (cannot_fetch_prefix @ ascii ''Failed to fetch''))]) \<and>
   assets (fst (capturePageData (\<lambda>u. FetchRejects (ascii ''Failed to fetch''))
     \<lparr>location = \<lparr>href = ascii ''https://example.com/'', protocol = ascii ''https:'',
        host = ascii ''example.com'', hostname = ascii ''example.com'',
        pathname = ascii ''/'', search = [], hash = []\<rparr>,
      document_title = ascii ''t'', outerHTML = ascii ''<html></html>'',
      canvas_elements = [],
      img_elements =
        [\<lparr>complete = False, load = Loaded, src = ascii ''https://cdn.example.com/chart.png'',
          src_attribute = Some (ascii ''//cdn.example.com/chart.png''),
          naturalWidth = 320, naturalHeight = 300\<rparr>]\<rparr>)) =
   [\<lparr>type = type_image, base64 = None,
     src_url = Some (ascii ''https://cdn.example.com/chart.png''),
     width = 320, height = 300\<rparr>]"
  using processImage_fetch_failure
      [where img = "\<lparr>complete = False, load = Loaded,
          src = ascii ''https://cdn.example.com/chart.png'',
          src_attribute = Some (ascii ''//cdn.example.com/chart.png''),
          naturalWidth = 320, naturalHeight = 300\<rparr>"
         and fetch = "\<lambda>u. FetchRejects (ascii ''Failed to fetch'')"
         and canvases = "[]" and earlier = "[]" and later = "[]"
         and p = "\<lparr>location = \<lparr>href = ascii ''https://example.com/'', protocol = ascii ''https:'',
              host = ascii ''example.com'', hostname = ascii ''example.com'',
              pathname = ascii ''/'', search = [], hash = []\<rparr>,
            document_title = ascii ''t'', outerHTML = ascii ''<html></html>'',
            canvas_elements = [],
            img_elements =
              [\<lparr>complete = False, load = Loaded,
                src = ascii ''https://cdn.example.com/chart.png'',
                src_attribute = Some (ascii ''//cdn.example.com/chart.png''),
                naturalWidth = 320, naturalHeight = 300\<rparr>]\<rparr>"]
  by (simp add: image_src_def ascii_def image_fetch_fails_def processImage_def imageUrlToBase64_def
      imageUrlToBase64_try_def wait_for_load_def capturePageData_assets extractAssets_def)

text \<open>
  C9: the assets of \<open>extractAssets\<close> are the assets of the canvases, in document order,
  followed by the assets of the images, in document order; the former are all of type
  \<open>canvas_chart\<close>, the latter all of type \<open>image\<close>. A page with one canvas of 800 by 400
  that can be serialised and one loaded image of 320 by 320, not inline, whose request
  succeeds, gives two assets: the chart, then the image.
\<close>

theorem extractAssets_order:
  "fst (extractAssets fetch canvases images) =
     List.map_filter (\<lambda>c. fst (processCanvas c)) canvases @
     List.map_filter (\<lambda>i. fst (processImage fetch i)) images \<and>
   (\<forall>a \<in> set (List.map_filter (\<lambda>c. fst (processCanvas c)) canvases). type a = type_canvas_chart) \<and>
   (\<forall>a \<in> set (List.map_filter (\<lambda>i. fst (processImage fetch i)) images). type a = type_image) \<and>
   (canvas.width c = 800 \<longrightarrow> canvas.height c = 400 \<longrightarrow> toDataURL c = Inr chart \<longrightarrow>
    complete i \<or> load i = Loaded \<longrightarrow>
    \<not> startsWith (image_src i) (ascii ''data:image/'') \<longrightarrow>
    naturalWidth i = 320 \<longrightarrow> naturalHeight i = 320 \<longrightarrow>
    fetch (image_src i) = FetchResolves r \<longrightarrow> ok r \<longrightarrow> blob r = Inr (ReadResult picture) \<longrightarrow>
    fst (extractAssets fetch [c] [i]) =
      [\<lparr>type = type_canvas_chart, base64 = Some chart, src_url = None, width = 800, height = 400\<rparr>,
       \<lparr>type = type_image, base64 = Some picture, src_url = Some (image_src i),
        width = 320, height = 320\<rparr>])"
proof (intro conjI ballI impI)
  show "fst (extractAssets fetch canvases images) =
     List.map_filter (\<lambda>c. fst (processCanvas c)) canvases @
     List.map_filter (\<lambda>i. fst (processImage fetch i)) images"
    by (simp add: extractAssets_eq)
next
  fix a assume "a \<in> set (List.map_filter (\<lambda>c. fst (processCanvas c)) canvases)"
  then show "type a = type_canvas_chart"
    using map_filter_set processCanvas_type by fast
next
  fix a assume "a \<in> set (List.map_filter (\<lambda>i. fst (processImage fetch i)) images)"
  then show "type a = type_image"
    using map_filter_set processImage_type by fast
next
  assume c: "canvas.width c = 800" "canvas.height c = 400" "toDataURL c = Inr chart"
    and i: "complete i \<or> load i = Loaded"
      "\<not> startsWith (image_src i) (ascii ''data:image/'')"
      "naturalWidth i = 320" "naturalHeight i = 320"
    and f: "fetch (image_src i) = FetchResolves r" "ok r" "blob r = Inr (ReadResult picture)"
  have pc: "processCanvas c =
      (Some \<lparr>type = type_canvas_chart, base64 = Some chart, src_url = None,
             width = 800, height = 400\<rparr>, [])"
    using c by (simp add: processCanvas_def)
  have "imageUrlToBase64 fetch (image_src i) = (Inr picture, [FetchRequest (image_src i)])"
    using f by (simp add: imageUrlToBase64_def imageUrlToBase64_try_def)
  then have pi: "processImage fetch i =
      (Some \<lparr>type = type_image, base64 = Some picture, src_url = Some (image_src i),
             width = 320, height = 320\<rparr>, [FetchRequest (image_src i)])"
    using i by (simp add: processImage_def wait_for_load_ok[OF i(1)])
  show "fst (extractAssets fetch [c] [i]) =
      [\<lparr>type = type_canvas_chart, base64 = Some chart, src_url = None, width = 800, height = 400\<rparr>,
       \<lparr>type = type_image, base64 = Some picture, src_url = Some (image_src i),
        width = 320, height = 320\<rparr>]"
    by (simp add: extractAssets_def pc pi)
qed

theorem extractAssets_order_witness:
  "fst (extractAssets
     (\<lambda>u. FetchResolves \<lparr>status = 200,
        blob = Inr (ReadResult (ascii ''data:image/jpeg;base64,BBBB''))\<rparr>)
     [\<lparr>canvas.width = 800, canvas.height = 400,
       toDataURL = Inr (ascii ''data:image/png;base64,AAAA'')\<rparr>]
     [\<lparr>complete = True, load = Loaded, src = ascii ''https://example.com/photo.jpg'',
       src_attribute = Some (ascii ''photo.jpg''), naturalWidth = 320, naturalHeight = 320\<rparr>]) =
   [\<lparr>type = type_canvas_chart, base64 = Some (ascii ''data:image/png;base64,AAAA''),
     src_url = None, width = 800, height = 400\<rparr>,
    \<lparr>type = type_image, base64 = Some (ascii ''data:image/jpeg;base64,BBBB''),
     src_url = Some (ascii ''https://example.com/photo.jpg''), width = 320, height = 320\<rparr>]"
  using extractAssets_order
      [where c = "\<lparr>canvas.width = 800, canvas.height = 400,
                    toDataURL = Inr (ascii ''data:image/png;base64,AAAA'')\<rparr>"
         and chart = "ascii ''data:image/png;base64,AAAA''"
         and i = "\<lparr>complete = True, load = Loaded, src = ascii ''https://example.com/photo.jpg'',
                    src_attribute = Some (ascii ''photo.jpg''),
                    naturalWidth = 320, naturalHeight = 320\<rparr>"
         and fetch = "\<lambda>u. FetchResolves \<lparr>status = 200,
                    blob = Inr (ReadResult (ascii ''data:image/jpeg;base64,BBBB''))\<rparr>"
         and r = "\<lparr>status = 200, blob = Inr (ReadResult (ascii ''data:image/jpeg;base64,BBBB''))\<rparr>"
         and picture = "ascii ''data:image/jpeg;base64,BBBB''"
         and canvases = "[]" and images = "[]"]
  by (simp add: image_src_def ascii_def ok_def)

section \<open>Properties of the relay: network failures\<close>

text \<open>
  C10: in \<open>sendToApi\<close> every error of the \<open>try\<close> block whose message has the substring
  \<open>Failed to fetch\<close> or \<open>NetworkError\<close> is replaced by the message naming three causes.
  That includes the failure raised for a non-success status when the first 100 code
  units of the body text have one of the substrings: the surfaced message is then the
  fixed one, and the status code (any code of two digits or more) does not occur in it.
\<close>

theorem sendToApi_network_gate:
  "(sendToApi_try request = Inl message \<longrightarrow>
      includes_str message (ascii ''Failed to fetch'') \<or>
      includes_str message (ascii ''NetworkError'') \<longrightarrow>
      sendToApi request = Inl network_error_message) \<and>
   (\<not> ok response \<longrightarrow>
      includes_str (substring0 100 (errorData response)) (ascii ''Failed to fetch'') \<or>
      includes_str (substring0 100 (errorData response)) (ascii ''NetworkError'') \<longrightarrow>
      sendToApi (FetchResolves response) = Inl network_error_message \<and>
      (10 \<le> status response \<longrightarrow>
         \<not> includes_str network_error_message (decimal (status response))))"
proof (intro conjI impI)
  assume "sendToApi_try request = Inl message"
    and "includes_str message (ascii ''Failed to fetch'') \<or>
         includes_str message (ascii ''NetworkError'')"
  then show "sendToApi request = Inl network_error_message"
    by (simp add: sendToApi_def)
next
  assume "\<not> ok response"
    and "includes_str (substring0 100 (errorData response)) (ascii ''Failed to fetch'') \<or>
         includes_str (substring0 100 (errorData response)) (ascii ''NetworkError'')"
  then show "sendToApi (FetchResolves response) = Inl network_error_message"
    by (simp add: sendToApi_def sendToApi_try_not_ok api_error_message_gate)
next
  assume "10 \<le> status response"
  then show "\<not> includes_str network_error_message (decimal (status response))"
    by (rule network_error_message_no_number)
qed

theorem sendToApi_network_gate_witness:
  "sendToApi (FetchRejects (ascii ''Failed to fetch'') :: unit http_response fetch_outcome) =
     Inl network_error_message \<and>
   sendToApi (FetchResolves \<lparr>status = 502,
       body_text = Some (ascii ''NetworkError when attempting to fetch resource.''),
       body_json = None :: unit option\<rparr>) = Inl network_error_message \<and>
   \<not> includes_str network_error_message (decimal 502)"
  using sendToApi_network_gate [of "FetchRejects (ascii ''Failed to fetch'')"
      "ascii ''Failed to fetch''"
      "\<lparr>status = 502, body_text = Some (ascii ''NetworkError when attempting to fetch resource.''),
        body_json = None :: unit option\<rparr>"]
  by (simp add: sendToApi_try_def ok_def errorData_def substring0_def ascii_def)

end
